theory Spec2Isabelle
  imports Main "HOL-Library.Word"
begin

unbundle bit_operations_syntax

section \<open>The PLIC driver of \<open>src/interrupts/plic.c\<close>\<close>

text \<open>
  The driver is written for a 64-bit RISC-V target: addresses are \<open>uint64_t\<close>, registers
  and source numbers are \<open>uint32_t\<close>, and the facade takes C \<open>int\<close>s.  A C \<open>int\<close> is kept
  as its 32 bits (the conversion between \<open>int\<close> and \<open>uint32_t\<close> at a call does not change
  them) and read with the signed order \<open><s\<close> where the source compares it as an \<open>int\<close>.
\<close>

type_synonym u32 = "32 word"
type_synonym u64 = "64 word"
type_synonym c_int = "32 word"

subsection \<open>Compile-time configuration\<close>

text \<open>
  \<open>PLIC_IOBASE\<close> is configurable (\<open>#ifndef PLIC_IOBASE\<close>, default \<open>0x0C000000\<close>).
  \<open>PLIC_PRIO_MIN\<close> and \<open>PLIC_PRIO_MAX\<close> come from \<open>plic.h\<close>, which is not among the
  sources, so all three are parameters of the model.  The two priority bounds are taken
  to be non-negative constants that fit 32 bits, so that the comparison of a \<open>uint32_t\<close>
  with them is the unsigned one.
\<close>

record plic_config =
  PLIC_IOBASE :: u64
  PLIC_PRIO_MIN :: u32
  PLIC_PRIO_MAX :: u32

definition PLIC_SRCCNT :: u32 where
  "PLIC_SRCCNT = 0x400"

definition PLIC_CTXCNT :: u32 where
  "PLIC_CTXCNT = 1"

text \<open>
  The four globals of lines 22 to 25; nothing in the file assigns to them.  Each
  initialiser is a sum \<open>PLIC_IOBASE + offset\<close>, which C forms in the type of the
  \<open>PLIC_IOBASE\<close> constant and only then widens to \<open>uint64_t\<close>.  The four definitions are
  that value for a base at which the sum does not overflow the type of the constant (the
  default base, and every base that \<open>iobase_fits\<close> below), and the functions of the driver
  are modelled for such a base.  \<open>literal_sum\<close> below is the sum as C forms it at any base.
\<close>

definition pending :: "plic_config \<Rightarrow> u64" where
  "pending cfg = PLIC_IOBASE cfg + 0x1000"

definition enable :: "plic_config \<Rightarrow> u64" where
  "enable cfg = PLIC_IOBASE cfg + 0x2000"

definition threshold :: "plic_config \<Rightarrow> u64" where
  "threshold cfg = PLIC_IOBASE cfg + 0x200000"

definition claim :: "plic_config \<Rightarrow> u64" where
  "claim cfg = PLIC_IOBASE cfg + 0x200004"

text \<open>
  \<open>PLIC_IOBASE + offset\<close> as lines 22 to 25 compute it.  \<open>PLIC_IOBASE\<close> is an unsuffixed
  hexadecimal constant, as in line 16, so on this target its type is the first of \<open>int\<close>,
  \<open>unsigned int\<close> (both 32 bits), \<open>long\<close> and \<open>unsigned long\<close> (both 64 bits) that holds
  its value; the offset is an \<open>int\<close> constant and is converted to that type.  An
  \<open>unsigned int\<close> sum wraps at 32 bits and is zero-extended.  Overflow of an \<open>int\<close> or
  \<open>long\<close> sum is undefined in C; \<open>literal_sum\<close> takes the two's complement result there,
  and nothing below rests on it.  The other use of the constant, line 99, widens it
  before it adds: \<open>(uint64_t)PLIC_IOBASE + sizeof(uint32_t)*srcno\<close>.
\<close>

definition literal_sum :: "u64 \<Rightarrow> u64 \<Rightarrow> u64" where
  "literal_sum b off =
     (if b \<le> 0x7FFFFFFF then scast ((ucast b :: 32 word) + ucast off)
      else if b \<le> 0xFFFFFFFF then ucast ((ucast b :: 32 word) + ucast off)
      else b + off)"

text \<open>
  The bases at which none of the four sums overflows the type of the constant; the
  largest offset is \<open>0x200004\<close>.
\<close>

definition iobase_fits :: "plic_config \<Rightarrow> bool" where
  "iobase_fits cfg =
     (PLIC_IOBASE cfg \<le> 0x7FDFFFFB
      \<or> (0x80000000 \<le> PLIC_IOBASE cfg \<and> PLIC_IOBASE cfg \<le> 0xFFDFFFFB)
      \<or> (0x100000000 \<le> PLIC_IOBASE cfg \<and> PLIC_IOBASE cfg \<le> 0x7FFFFFFFFFDFFFFB)
      \<or> 0x8000000000000000 \<le> PLIC_IOBASE cfg)"

subsection \<open>State: the register file, the accesses made, the console\<close>

text \<open>
  The registers are a store from addresses to 32-bit values, so that two register names
  with the same address are the same cell.  Every dereference of a \<open>volatile uint32_t *\<close>
  is recorded, in program order, in \<open>mmio\<close>; \<open>console\<close> holds what \<open>trace\<close> and \<open>debug\<close>
  print.  The store is what the driver reads and writes: what the controller itself does
  to its registers between two calls is not part of the model.
\<close>

datatype mmio_access = Load u64 u32 | Store u64 u32

datatype console_arg = ArgStr string | ArgInt c_int

datatype console_line = Trace string "console_arg list" | Debug string "console_arg list"

record plic_state =
  mem :: "u64 \<Rightarrow> u32"
  mmio :: "mmio_access list"
  console :: "console_line list"

definition volatile_load :: "u64 \<Rightarrow> plic_state \<Rightarrow> u32 \<times> plic_state" where
  "volatile_load a s = (mem s a, s\<lparr>mmio := mmio s @ [Load a (mem s a)]\<rparr>)"

definition volatile_store :: "u64 \<Rightarrow> u32 \<Rightarrow> plic_state \<Rightarrow> plic_state" where
  "volatile_store a v s = s\<lparr>mem := (mem s)(a := v), mmio := mmio s @ [Store a v]\<rparr>"

text \<open>
  Modelled from the spec: the macros \<open>trace\<close> and \<open>debug\<close> of \<open>console.h\<close>, which is not
  among the sources.  The spec calls them logging sinks and says that \<open>disable_irq\<close>
  "logs a diagnostic": each appends one line, its format string and arguments, to the
  console and touches nothing else.
\<close>

definition trace :: "string \<Rightarrow> console_arg list \<Rightarrow> plic_state \<Rightarrow> plic_state" where
  "trace fmt args s = s\<lparr>console := console s @ [Trace fmt args]\<rparr>"

definition debug :: "string \<Rightarrow> console_arg list \<Rightarrow> plic_state \<Rightarrow> plic_state" where
  "debug fmt args s = s\<lparr>console := console s @ [Debug fmt args]\<rparr>"

subsection \<open>Internal functions (lines 93 to 228)\<close>

text \<open>
  \<open>plic_set_source_priority\<close>.  In the source the statement
  \<open>if(level > PLIC_PRIO_MAX) {level = PLIC_PRIO_MAX;}\<close> stands inside the first branch,
  after its \<open>return\<close>: it is never executed, so the model's first branch returns the
  state and the second stores \<open>level\<close> as it came.  \<open>sizeof(uint32_t)*srcno\<close> is a
  64-bit product.
\<close>

definition plic_set_source_priority :: "plic_config \<Rightarrow> u32 \<Rightarrow> u32 \<Rightarrow> plic_state \<Rightarrow> plic_state" where
  "plic_set_source_priority cfg srcno level s =
     (if srcno > PLIC_SRCCNT \<or> srcno = 0 \<or> level < PLIC_PRIO_MIN cfg then s
      else volatile_store (PLIC_IOBASE cfg + 4 * ucast srcno) level s)"

text \<open>
  \<open>plic_source_pending\<close> returns a C \<open>int\<close>, 0 or 1.  \<open>1 << (srcno%32)\<close> is an \<open>int\<close>
  shift converted to \<open>uint32_t\<close> by the \<open>&=\<close>; for a shift of 31 the model takes the
  two's complement result \<open>0x80000000\<close>, as the compilers for this target do.
\<close>

definition plic_source_pending :: "plic_config \<Rightarrow> u32 \<Rightarrow> plic_state \<Rightarrow> c_int \<times> plic_state" where
  "plic_source_pending cfg srcno s =
     (if srcno > PLIC_SRCCNT then (0, s)
      else
        let (pend, s') = volatile_load (pending cfg + 4 * ucast (srcno div 32)) s;
            pend = pend AND push_bit (unat (srcno mod 32)) 1
        in ((if pend > 0 then 1 else 0), s'))"

text \<open>
  \<open>(*enable_ptr) |= m\<close> on a volatile cell is one load followed by one store.  The mask
  is the same \<open>int\<close> shift \<open>1 << (srcno%32)\<close>, and \<open>~\<close> of it for disable, converted to
  \<open>uint32_t\<close> by the assignment.  On \<open>uint32_t\<close> the test \<open>srcno <= 0\<close> is \<open>srcno == 0\<close>.
\<close>

definition plic_enable_source_for_context :: "plic_config \<Rightarrow> u32 \<Rightarrow> u32 \<Rightarrow> plic_state \<Rightarrow> plic_state" where
  "plic_enable_source_for_context cfg ctxno srcno s =
     (if ctxno \<noteq> 0 \<or> srcno > PLIC_SRCCNT \<or> srcno \<le> 0 then s
      else
        let enable_ptr = enable cfg + 4 * ucast (srcno div 32);
            (v, s') = volatile_load enable_ptr s
        in volatile_store enable_ptr (v OR push_bit (unat (srcno mod 32)) 1) s')"

definition plic_disable_source_for_context :: "plic_config \<Rightarrow> u32 \<Rightarrow> u32 \<Rightarrow> plic_state \<Rightarrow> plic_state" where
  "plic_disable_source_for_context cfg ctxno srcid s =
     (if ctxno \<noteq> 0 \<or> srcid > PLIC_SRCCNT \<or> srcid \<le> 0 then s
      else
        let enable_ptr = enable cfg + 4 * ucast (srcid div 32);
            (v, s') = volatile_load enable_ptr s
        in volatile_store enable_ptr (v AND NOT (push_bit (unat (srcid mod 32)) 1)) s')"

definition plic_set_context_threshold :: "plic_config \<Rightarrow> u32 \<Rightarrow> u32 \<Rightarrow> plic_state \<Rightarrow> plic_state" where
  "plic_set_context_threshold cfg ctxno level s =
     (if ctxno \<noteq> 0 then s else volatile_store (threshold cfg) level s)"

definition plic_claim_context_interrupt :: "plic_config \<Rightarrow> u32 \<Rightarrow> plic_state \<Rightarrow> u32 \<times> plic_state" where
  "plic_claim_context_interrupt cfg ctxno s =
     (if ctxno \<noteq> 0 then (0, s) else volatile_load (claim cfg) s)"

definition plic_complete_context_interrupt :: "plic_config \<Rightarrow> u32 \<Rightarrow> u32 \<Rightarrow> plic_state \<Rightarrow> plic_state" where
  "plic_complete_context_interrupt cfg ctxno srcno s =
     (if ctxno \<noteq> 0 \<or> srcno > PLIC_SRCCNT \<or> srcno \<le> 0 then s
      else volatile_store (claim cfg) srcno s)"

subsection \<open>Exported functions (lines 47 to 81)\<close>

text \<open>
  The loop of \<open>plic_init\<close>: \<open>for (i = 0; i < PLIC_SRCCNT; i++)\<close> with \<open>int i\<close>.  The
  counter stays within 0 and 1024, so it is an \<open>int\<close> here and the conversion to the
  \<open>uint32_t\<close> parameter is \<open>word_of_int\<close>.
\<close>

function plic_init_loop :: "plic_config \<Rightarrow> int \<Rightarrow> plic_state \<Rightarrow> plic_state" where
  "plic_init_loop cfg i s =
     (if i < uint PLIC_SRCCNT
      then plic_init_loop cfg (i + 1)
             (plic_enable_source_for_context cfg 0 (word_of_int i)
               (plic_set_source_priority cfg (word_of_int i) 0 s))
      else s)"
  by pat_completeness auto
termination
  by (relation "measure (\<lambda>(cfg, i, s). nat (uint PLIC_SRCCNT - i))") auto

definition plic_init :: "plic_config \<Rightarrow> plic_state \<Rightarrow> plic_state" where
  "plic_init cfg s = plic_init_loop cfg 0 s"

definition plic_enable_irq :: "plic_config \<Rightarrow> c_int \<Rightarrow> c_int \<Rightarrow> plic_state \<Rightarrow> plic_state" where
  "plic_enable_irq cfg irqno prio s =
     plic_set_source_priority cfg irqno prio
       (trace ''%s(irqno=%d,prio=%d)'' [ArgStr ''plic_enable_irq'', ArgInt irqno, ArgInt prio] s)"

definition plic_disable_irq :: "plic_config \<Rightarrow> c_int \<Rightarrow> plic_state \<Rightarrow> plic_state" where
  "plic_disable_irq cfg irqno s =
     (if 0 <s irqno then plic_set_source_priority cfg irqno 0 s
      else debug ''plic_disable_irq called with irqno = %d'' [ArgInt irqno] s)"

definition plic_claim_irq :: "plic_config \<Rightarrow> plic_state \<Rightarrow> c_int \<times> plic_state" where
  "plic_claim_irq cfg s =
     plic_claim_context_interrupt cfg 0 (trace ''%s()'' [ArgStr ''plic_claim_irq''] s)"

definition plic_close_irq :: "plic_config \<Rightarrow> c_int \<Rightarrow> plic_state \<Rightarrow> plic_state" where
  "plic_close_irq cfg irqno s =
     plic_complete_context_interrupt cfg 0 irqno
       (trace ''%s(irqno=%d)'' [ArgStr ''plic_close_irq'', ArgInt irqno] s)"

subsection \<open>The specification's vocabulary\<close>

text \<open>
  What the specification's sentences speak of, written over the store: the clamp of a level
  to a range, and the registers of its layout table (priority of a source at offset
  \<open>4 * source\<close>; pending and enable bit \<open>source mod 32\<close> of the word at \<open>0x1000\<close>,
  respectively \<open>0x2000\<close>, plus \<open>4 * (source div 32)\<close>; threshold at \<open>0x200000\<close>;
  claim/complete at \<open>0x200004\<close>).  None of them is used by the model of the code above.
\<close>

definition spec_clamp :: "u32 \<Rightarrow> u32 \<Rightarrow> u32 \<Rightarrow> u32" where
  "spec_clamp level lo hi = (if level < lo then lo else if hi < level then hi else level)"

definition prio_reg :: "plic_config \<Rightarrow> plic_state \<Rightarrow> u32 \<Rightarrow> u32" where
  "prio_reg cfg s src = mem s (PLIC_IOBASE cfg + 4 * ucast src)"

definition pending_bit :: "plic_config \<Rightarrow> plic_state \<Rightarrow> u32 \<Rightarrow> bool" where
  "pending_bit cfg s src =
     bit (mem s (PLIC_IOBASE cfg + 0x1000 + 4 * ucast (src div 32))) (unat (src mod 32))"

definition enable_bit :: "plic_config \<Rightarrow> plic_state \<Rightarrow> u32 \<Rightarrow> bool" where
  "enable_bit cfg s src =
     bit (mem s (PLIC_IOBASE cfg + 0x2000 + 4 * ucast (src div 32))) (unat (src mod 32))"

definition threshold_reg :: "plic_config \<Rightarrow> plic_state \<Rightarrow> u32" where
  "threshold_reg cfg s = mem s (PLIC_IOBASE cfg + 0x200000)"

definition claim_reg :: "plic_config \<Rightarrow> plic_state \<Rightarrow> u32" where
  "claim_reg cfg s = mem s (PLIC_IOBASE cfg + 0x200004)"

text \<open>The addresses of the accesses a call adds to the record, in program order.\<close>

fun access_addr :: "mmio_access \<Rightarrow> u64" where
  "access_addr (Load a v) = a"
| "access_addr (Store a v) = a"

definition accessed :: "plic_state \<Rightarrow> plic_state \<Rightarrow> u64 list" where
  "accessed s s' = map access_addr (drop (length (mmio s)) (mmio s'))"

subsection \<open>Concrete configurations and register files\<close>

text \<open>
  Two settings of the constants of \<open>plic.h\<close>, both with the default base and with seven
  as the highest priority: one where the lowest priority is 0 (the level \<open>plic_init\<close> and
  \<open>plic_disable_irq\<close> pass), one where it is 1 (the lowest level at which a source of a
  RISC-V PLIC interrupts).  \<open>regs_zero\<close> is a register file of zeros on which nothing
  has run yet.
\<close>

definition cfg_min0 :: plic_config where
  "cfg_min0 = \<lparr>PLIC_IOBASE = 0x0C000000, PLIC_PRIO_MIN = 0, PLIC_PRIO_MAX = 7\<rparr>"

definition cfg_min1 :: plic_config where
  "cfg_min1 = \<lparr>PLIC_IOBASE = 0x0C000000, PLIC_PRIO_MIN = 1, PLIC_PRIO_MAX = 7\<rparr>"


definition regs_zero :: plic_state where
  "regs_zero = \<lparr>mem = (\<lambda>a. 0), mmio = [], console = []\<rparr>"

text \<open>
  A register file in which source 5 is already enabled for context 0 (bit 5 of the first
  enable word), and one in which every register holds 7.
\<close>

definition regs_src5_enabled :: plic_state where
  "regs_src5_enabled = \<lparr>mem = (\<lambda>a. if a = 0x0C002000 then 0x20 else 0), mmio = [], console = []\<rparr>"

definition regs_all7 :: plic_state where
  "regs_all7 = \<lparr>mem = (\<lambda>a. 7), mmio = [], console = []\<rparr>"

text \<open>
  Two register files with one bit set: bit 0 of the word at offset \<open>0x1080\<close> (the word
  after the 32 pending words of sources 0 to 1023), and bit 0 of the first pending word.
\<close>

definition regs_pend_1080 :: plic_state where
  "regs_pend_1080 = \<lparr>mem = (\<lambda>a. if a = 0x0C001080 then 1 else 0), mmio = [], console = []\<rparr>"

definition regs_pend_1000 :: plic_state where
  "regs_pend_1000 = \<lparr>mem = (\<lambda>a. if a = 0x0C001000 then 1 else 0), mmio = [], console = []\<rparr>"

section \<open>Arithmetic of the register addresses\<close>

lemma unat_u32_bound: "unat (x::u32) < 4294967296"
  using unsigned_less [of x, where 'a=nat] by simp

lemma unat_ucast_u32: "unat (ucast (x::u32) :: u64) = unat x"
proof -
  have "unat x < (2::nat) ^ 64" using unat_u32_bound [of x] by simp
  then show ?thesis
    by (simp add: unsigned_ucast_eq take_bit_nat_eq_self)
qed

lemma unat_word_offset: "unat (4 * ucast (x::u32) :: u64) = 4 * unat x"
  using unat_u32_bound [of x] by (simp add: unat_word_ariths unat_ucast_u32)

lemma word_offset_inj: "(4 * ucast (x::u32) = (4 * ucast (y::u32) :: u64)) = (x = y)"
proof -
  have "(4 * ucast x = (4 * ucast y :: u64)) = (unat (4 * ucast x :: u64) = unat (4 * ucast y :: u64))"
    by (rule word_unat_eq_iff)
  also have "\<dots> = (unat x = unat y)" by (simp add: unat_word_offset)
  also have "\<dots> = (x = y)" by (simp add: word_unat_eq_iff)
  finally show ?thesis .
qed

lemma unat_enable_offset: "unat (0x2000 + 4 * ucast (x::u32) :: u64) = 8192 + 4 * unat x"
proof -
  have "unat (0x2000 + 4 * ucast x :: u64) = (unat (0x2000 :: u64) + unat (4 * ucast x :: u64)) mod 2 ^ 64"
    by (simp only: unat_word_ariths(1)) simp
  then show ?thesis
    using unat_u32_bound [of x] by (simp add: unat_word_offset)
qed

lemma enable_offset_neq_prio_offset:
  "unat (x::u32) \<le> 1024 \<Longrightarrow> (0x2000 + 4 * ucast (w::u32) :: u64) \<noteq> 4 * ucast x"
proof
  assume le: "unat x \<le> 1024" and eq: "(0x2000 + 4 * ucast w :: u64) = 4 * ucast x"
  from eq have "unat (0x2000 + 4 * ucast w :: u64) = unat (4 * ucast x :: u64)" by simp
  then have "8192 + 4 * unat w = 4 * unat x"
    by (simp only: unat_enable_offset unat_word_offset)
  with le show False by simp
qed

lemma bit_mask_u32: "bit (push_bit n 1 :: u32) m \<longleftrightarrow> m = n \<and> n < 32"
  by (auto simp: bit_simps)

lemma unat_mod32: "unat ((x::u32) mod 32) = unat x mod 32"
  by (simp add: unat_mod)

lemma unat_div32: "unat ((x::u32) div 32) = unat x div 32"
  by (simp add: unat_div)

lemma div_mod_32_eq: "((x::u32) div 32 = y div 32 \<and> unat (x mod 32) = unat (y mod 32)) = (x = y)"
proof -
  have "unat x = 32 * (unat x div 32) + unat x mod 32" by simp
  moreover have "unat y = 32 * (unat y div 32) + unat y mod 32" by simp
  ultimately have "unat x div 32 = unat y div 32 \<and> unat x mod 32 = unat y mod 32 \<longleftrightarrow> unat x = unat y"
    by metis
  then show ?thesis
    by (simp add: word_unat_eq_iff unat_mod32 unat_div32)
qed

section \<open>The effect of one call on the store\<close>

lemma mem_set_source_priority:
  "mem (plic_set_source_priority cfg srcno level s) =
     (if srcno > PLIC_SRCCNT \<or> srcno = 0 \<or> level < PLIC_PRIO_MIN cfg then mem s
      else (mem s)(PLIC_IOBASE cfg + 4 * ucast srcno := level))"
  by (simp add: plic_set_source_priority_def volatile_store_def)

lemma mem_enable_source:
  "mem (plic_enable_source_for_context cfg ctxno srcno s) =
     (if ctxno \<noteq> 0 \<or> srcno > PLIC_SRCCNT \<or> srcno = 0 then mem s
      else (mem s)(PLIC_IOBASE cfg + 0x2000 + 4 * ucast (srcno div 32) :=
             mem s (PLIC_IOBASE cfg + 0x2000 + 4 * ucast (srcno div 32))
               OR push_bit (unat (srcno mod 32)) 1))"
  by (simp add: plic_enable_source_for_context_def volatile_store_def volatile_load_def enable_def Let_def)

lemma mem_disable_source:
  "mem (plic_disable_source_for_context cfg ctxno srcno s) =
     (if ctxno \<noteq> 0 \<or> srcno > PLIC_SRCCNT \<or> srcno = 0 then mem s
      else (mem s)(PLIC_IOBASE cfg + 0x2000 + 4 * ucast (srcno div 32) :=
             mem s (PLIC_IOBASE cfg + 0x2000 + 4 * ucast (srcno div 32))
               AND NOT (push_bit (unat (srcno mod 32)) 1)))"
  by (simp add: plic_disable_source_for_context_def volatile_store_def volatile_load_def enable_def Let_def)

lemma bit_pow2_u32: "bit (2 ^ n :: u32) m \<longleftrightarrow> m = n \<and> n < 32"
  using bit_mask_u32 [of n m] by simp

lemma unat_mod32_less: "unat ((x::u32) mod 32) < 32"
  by (simp add: unat_mod32)

lemma enable_bit_set_source_priority:
  "enable_bit cfg (plic_set_source_priority cfg srcno level s) k = enable_bit cfg s k"
proof -
  have "srcno \<le> PLIC_SRCCNT \<Longrightarrow> unat srcno \<le> 1024"
    by (simp add: PLIC_SRCCNT_def word_le_nat_alt)
  then show ?thesis
    using enable_offset_neq_prio_offset [of srcno "k div 32"]
    by (auto simp: enable_bit_def mem_set_source_priority add.assoc)
qed

lemma enable_bit_enable_source:
  "enable_bit cfg (plic_enable_source_for_context cfg ctxno srcno s) k \<longleftrightarrow>
     (k = srcno \<and> ctxno = 0 \<and> srcno \<le> PLIC_SRCCNT \<and> srcno \<noteq> 0) \<or> enable_bit cfg s k"
  using div_mod_32_eq [of k srcno] unat_mod32_less [of srcno]
  by (auto simp: enable_bit_def mem_enable_source add.assoc word_offset_inj bit_or_iff bit_pow2_u32)

lemma enable_bit_disable_source:
  "enable_bit cfg (plic_disable_source_for_context cfg ctxno srcno s) k \<longleftrightarrow>
     \<not> (k = srcno \<and> ctxno = 0 \<and> srcno \<le> PLIC_SRCCNT \<and> srcno \<noteq> 0) \<and> enable_bit cfg s k"
  using div_mod_32_eq [of k srcno] unat_mod32_less [of srcno]
  by (auto simp: enable_bit_def mem_disable_source add.assoc word_offset_inj bit_and_iff bit_not_iff
        bit_pow2_u32 dest: bit_imp_le_length)

lemma prio_reg_set_source_priority:
  "prio_reg cfg (plic_set_source_priority cfg srcno level s) k =
     (if k = srcno \<and> srcno \<le> PLIC_SRCCNT \<and> srcno \<noteq> 0 \<and> PLIC_PRIO_MIN cfg \<le> level
      then level else prio_reg cfg s k)"
  by (auto simp: prio_reg_def mem_set_source_priority word_offset_inj)

lemma prio_reg_enable_source:
  "k \<le> PLIC_SRCCNT \<Longrightarrow>
     prio_reg cfg (plic_enable_source_for_context cfg ctxno srcno s) k = prio_reg cfg s k"
proof -
  assume "k \<le> PLIC_SRCCNT"
  then have "unat k \<le> 1024"
    by (simp add: PLIC_SRCCNT_def word_le_nat_alt)
  then show ?thesis
    using enable_offset_neq_prio_offset [of k "srcno div 32"]
    by (auto simp: prio_reg_def mem_enable_source add.assoc)
qed

lemma mask_or_and_not:
  "\<not> bit (w::u32) n \<Longrightarrow> (w OR 2 ^ n) AND NOT (2 ^ n) = w"
  by (rule bit_word_eqI) (auto simp: bit_or_iff bit_and_iff bit_not_iff bit_pow2_u32)

section \<open>Priority and threshold levels\<close>

text \<open>
  Whatever the two bounds are, a level that is not below \<open>PRIO_MIN\<close> reaches the register
  of a source from 1 to \<open>SRCCNT - 1\<close> as it came, above \<open>PRIO_MAX\<close> or not.
\<close>

lemma set_source_priority_stores_level:
  "1 \<le> srcno \<Longrightarrow> srcno < PLIC_SRCCNT \<Longrightarrow> PLIC_PRIO_MIN cfg \<le> level \<Longrightarrow>
     prio_reg cfg (plic_set_source_priority cfg srcno level s) srcno = level"
  by (auto simp: prio_reg_set_source_priority)

text \<open>
  C1, as amended.  For a source id from 1 to \<open>SRCCNT - 1\<close>: a level within
  \<open>[PRIO_MIN, PRIO_MAX]\<close> is stored in the source's priority register as it is (which is
  its clamp to that range, and the call is exactly that one store); a level below
  \<open>PRIO_MIN\<close> is rejected, the call changing nothing at all.  Levels above \<open>PRIO_MAX\<close>
  are left out of the statement.
\<close>

theorem set_source_priority_level_in_range:
  assumes "1 \<le> srcno" and "srcno < PLIC_SRCCNT"
  shows "(PLIC_PRIO_MIN cfg \<le> level \<and> level \<le> PLIC_PRIO_MAX cfg \<longrightarrow>
            plic_set_source_priority cfg srcno level s
              = volatile_store (PLIC_IOBASE cfg + 4 * ucast srcno) level s
          \<and> prio_reg cfg (plic_set_source_priority cfg srcno level s) srcno
              = spec_clamp level (PLIC_PRIO_MIN cfg) (PLIC_PRIO_MAX cfg))
       \<and> (level < PLIC_PRIO_MIN cfg \<longrightarrow> plic_set_source_priority cfg srcno level s = s)"
  using assms
  by (auto simp: plic_set_source_priority_def PLIC_SRCCNT_def spec_clamp_def
        volatile_store_def prio_reg_def)

theorem set_source_priority_level_in_range_witness:
  "prio_reg cfg_min1 (plic_set_source_priority cfg_min1 5 3 regs_zero) 5
     = spec_clamp 3 (PLIC_PRIO_MIN cfg_min1) (PLIC_PRIO_MAX cfg_min1)
   \<and> spec_clamp 3 (PLIC_PRIO_MIN cfg_min1) (PLIC_PRIO_MAX cfg_min1) = 3
   \<and> plic_set_source_priority cfg_min1 5 0 regs_zero = regs_zero"
proof -
  have src: "(1::u32) \<le> 5" "(5::u32) < PLIC_SRCCNT"
    by (simp_all add: PLIC_SRCCNT_def)
  have within: "PLIC_PRIO_MIN cfg_min1 \<le> 3 \<and> 3 \<le> PLIC_PRIO_MAX cfg_min1"
    and below: "0 < PLIC_PRIO_MIN cfg_min1"
    and clamp: "spec_clamp 3 (PLIC_PRIO_MIN cfg_min1) (PLIC_PRIO_MAX cfg_min1) = 3"
    by (simp_all add: cfg_min1_def spec_clamp_def)
  show ?thesis
    using set_source_priority_level_in_range [OF src, of cfg_min1 3 regs_zero]
          set_source_priority_level_in_range [OF src, of cfg_min1 0 regs_zero]
          within below clamp
    by blast
qed

text \<open>
  C1 as stated fails.  With \<open>PRIO_MIN = 1\<close> and \<open>PRIO_MAX = 7\<close>, on a register file of
  zeros: \<open>set_source_priority(5, PRIO_MAX + 100)\<close> leaves 107 in the priority register of
  source 5, not \<open>PRIO_MAX\<close>; and \<open>set_source_priority(5, 0)\<close>, a level below \<open>PRIO_MIN\<close>,
  leaves the register at 0, not at the clamp \<open>PRIO_MIN\<close>.
\<close>

theorem set_source_priority_clamp_counterexample:
  "prio_reg cfg_min1 (plic_set_source_priority cfg_min1 5 (PLIC_PRIO_MAX cfg_min1 + 100) regs_zero) 5 = 107
   \<and> PLIC_PRIO_MAX cfg_min1 = 7
   \<and> prio_reg cfg_min1 (plic_set_source_priority cfg_min1 5 0 regs_zero) 5 = 0
   \<and> spec_clamp 0 (PLIC_PRIO_MIN cfg_min1) (PLIC_PRIO_MAX cfg_min1) = 1"
  by (simp add: plic_set_source_priority_def PLIC_SRCCNT_def spec_clamp_def
        volatile_store_def prio_reg_def cfg_min1_def regs_zero_def)

text \<open>
  C8, as amended.  For every level, \<open>set_context_threshold(0, level)\<close> is one store of
  \<open>level\<close>, unclamped, to the threshold register of context 0, which then holds \<open>level\<close>
  itself.
\<close>

theorem set_context_threshold_stores_level:
  "plic_set_context_threshold cfg 0 level s = volatile_store (PLIC_IOBASE cfg + 0x200000) level s
   \<and> threshold_reg cfg (plic_set_context_threshold cfg 0 level s) = level"
  by (simp add: plic_set_context_threshold_def threshold_def volatile_store_def threshold_reg_def)

text \<open>
  C8 as stated fails: with \<open>PRIO_MIN = 1\<close> and \<open>PRIO_MAX = 7\<close>,
  \<open>set_context_threshold(0, 107)\<close> leaves 107 in the threshold register, and the clamp of
  107 is 7.
\<close>

theorem set_context_threshold_clamp_counterexample:
  "threshold_reg cfg_min1 (plic_set_context_threshold cfg_min1 0 107 regs_zero) = 107
   \<and> spec_clamp 107 (PLIC_PRIO_MIN cfg_min1) (PLIC_PRIO_MAX cfg_min1) = 7"
  by (simp add: plic_set_context_threshold_def threshold_def volatile_store_def threshold_reg_def
        spec_clamp_def cfg_min1_def regs_zero_def)

section \<open>Enable bits\<close>

text \<open>
  C5.  For a source id from 1 to \<open>SRCCNT - 1\<close>, \<open>enable_source_for_context(0, source)\<close>
  sets bit \<open>source mod 32\<close> of the enable word at \<open>0x2000 + 4 * (source div 32)\<close> and
  leaves every other bit of every word of the store as it was;
  \<open>disable_source_for_context(0, source)\<close> clears that bit and leaves every other bit as
  it was.
\<close>

theorem enable_disable_touch_one_bit:
  assumes "1 \<le> srcno" and "srcno < PLIC_SRCCNT"
  shows "(bit (mem (plic_enable_source_for_context cfg 0 srcno s) a) n \<longleftrightarrow>
            (a = PLIC_IOBASE cfg + 0x2000 + 4 * ucast (srcno div 32) \<and> n = unat (srcno mod 32))
            \<or> bit (mem s a) n)
       \<and> (bit (mem (plic_disable_source_for_context cfg 0 srcno s) a) n \<longleftrightarrow>
            \<not> (a = PLIC_IOBASE cfg + 0x2000 + 4 * ucast (srcno div 32) \<and> n = unat (srcno mod 32))
            \<and> bit (mem s a) n)"
proof -
  from assms have ok: "\<not> (srcno > PLIC_SRCCNT \<or> srcno = 0)"
    by (auto simp: PLIC_SRCCNT_def)
  show ?thesis
    using ok unat_mod32_less [of srcno]
    by (auto simp: mem_enable_source mem_disable_source bit_or_iff bit_and_iff bit_not_iff
          bit_pow2_u32 dest: bit_imp_le_length)
qed

theorem enable_disable_touch_one_bit_witness:
  "bit (mem (plic_enable_source_for_context cfg_min0 0 37 regs_zero) (PLIC_IOBASE cfg_min0 + 0x2004)) 5
   \<and> \<not> bit (mem (plic_disable_source_for_context cfg_min0 0 37 regs_zero) (PLIC_IOBASE cfg_min0 + 0x2004)) 5"
proof -
  have src: "(1::u32) \<le> 37" "(37::u32) < PLIC_SRCCNT"
    by (simp_all add: PLIC_SRCCNT_def)
  have addr: "PLIC_IOBASE cfg_min0 + 0x2004 = PLIC_IOBASE cfg_min0 + 0x2000 + 4 * ucast ((37::u32) div 32)"
    and idx: "5 = unat ((37::u32) mod 32)"
    by simp_all
  show ?thesis
    using enable_disable_touch_one_bit [OF src, of cfg_min0 regs_zero "PLIC_IOBASE cfg_min0 + 0x2004" 5]
          addr idx
    by blast
qed

lemma mem_enable_then_disable:
  "mem (plic_disable_source_for_context cfg 0 srcno (plic_enable_source_for_context cfg 0 srcno s)) =
     (if srcno > PLIC_SRCCNT \<or> srcno = 0 then mem s
      else (mem s)(PLIC_IOBASE cfg + 0x2000 + 4 * ucast (srcno div 32) :=
             (mem s (PLIC_IOBASE cfg + 0x2000 + 4 * ucast (srcno div 32))
               OR push_bit (unat (srcno mod 32)) 1) AND NOT (push_bit (unat (srcno mod 32)) 1)))"
  by (simp add: mem_enable_source mem_disable_source)

text \<open>
  C4, as amended.  For every source id: enabling it for context 0 and then disabling it
  leaves every other source's enable bit as it was, after the first call and after the
  second; if the source's own bit was clear before the first call, the two calls restore
  the whole store (the enable bitmap with it); and for a source id from 1 to
  \<open>SRCCNT - 1\<close> the source's bit is clear after the two calls, whatever it was before.
\<close>

theorem enable_then_disable:
  "(src' \<noteq> srcno \<longrightarrow>
      enable_bit cfg (plic_enable_source_for_context cfg 0 srcno s) src' = enable_bit cfg s src'
    \<and> enable_bit cfg (plic_disable_source_for_context cfg 0 srcno
          (plic_enable_source_for_context cfg 0 srcno s)) src' = enable_bit cfg s src')
   \<and> (\<not> enable_bit cfg s srcno \<longrightarrow>
        mem (plic_disable_source_for_context cfg 0 srcno
              (plic_enable_source_for_context cfg 0 srcno s)) = mem s)
   \<and> (1 \<le> srcno \<and> srcno < PLIC_SRCCNT \<longrightarrow>
        \<not> enable_bit cfg (plic_disable_source_for_context cfg 0 srcno
              (plic_enable_source_for_context cfg 0 srcno s)) srcno)"
proof -
  have other: "src' \<noteq> srcno \<longrightarrow>
      enable_bit cfg (plic_enable_source_for_context cfg 0 srcno s) src' = enable_bit cfg s src'
    \<and> enable_bit cfg (plic_disable_source_for_context cfg 0 srcno
          (plic_enable_source_for_context cfg 0 srcno s)) src' = enable_bit cfg s src'"
    by (simp add: enable_bit_enable_source enable_bit_disable_source)
  have restore: "\<not> enable_bit cfg s srcno \<longrightarrow>
        mem (plic_disable_source_for_context cfg 0 srcno
              (plic_enable_source_for_context cfg 0 srcno s)) = mem s"
    by (auto simp: mem_enable_then_disable enable_bit_def mask_or_and_not)
  have cleared: "1 \<le> srcno \<and> srcno < PLIC_SRCCNT \<longrightarrow>
        \<not> enable_bit cfg (plic_disable_source_for_context cfg 0 srcno
              (plic_enable_source_for_context cfg 0 srcno s)) srcno"
    by (auto simp: enable_bit_disable_source PLIC_SRCCNT_def)
  from other restore cleared show ?thesis by blast
qed

theorem enable_then_disable_witness:
  "enable_bit cfg_min0 (plic_disable_source_for_context cfg_min0 0 5
          (plic_enable_source_for_context cfg_min0 0 5 regs_src5_enabled)) 4 = enable_bit cfg_min0 regs_src5_enabled 4
   \<and> mem (plic_disable_source_for_context cfg_min0 0 5
              (plic_enable_source_for_context cfg_min0 0 5 regs_zero)) = mem regs_zero
   \<and> \<not> enable_bit cfg_min0 (plic_disable_source_for_context cfg_min0 0 5
              (plic_enable_source_for_context cfg_min0 0 5 regs_src5_enabled)) 5"
proof -
  have neq: "(4::u32) \<noteq> 5" and src: "(1::u32) \<le> 5 \<and> (5::u32) < PLIC_SRCCNT"
    and clear: "\<not> enable_bit cfg_min0 regs_zero 5"
    by (simp_all add: PLIC_SRCCNT_def enable_bit_def regs_zero_def)
  show ?thesis
    using enable_then_disable [of 4 5 cfg_min0 regs_src5_enabled]
          enable_then_disable [of 4 5 cfg_min0 regs_zero] neq src clear
    by blast
qed

text \<open>
  C4 as stated fails when the source is enabled already: with bit 5 of the first enable
  word set (the word holds \<open>0x20\<close>), \<open>enable(0, 5)\<close> then \<open>disable(0, 5)\<close> leave the word
  at 0, not at its value before the enable call.
\<close>

theorem enable_then_disable_counterexample:
  "enable_bit cfg_min0 regs_src5_enabled 5
   \<and> \<not> enable_bit cfg_min0 (plic_disable_source_for_context cfg_min0 0 5
          (plic_enable_source_for_context cfg_min0 0 5 regs_src5_enabled)) 5
   \<and> mem regs_src5_enabled (PLIC_IOBASE cfg_min0 + 0x2000) = 0x20
   \<and> mem (plic_disable_source_for_context cfg_min0 0 5
          (plic_enable_source_for_context cfg_min0 0 5 regs_src5_enabled)) (PLIC_IOBASE cfg_min0 + 0x2000) = 0"
  by (simp add: enable_bit_def mem_enable_then_disable PLIC_SRCCNT_def cfg_min0_def regs_src5_enabled_def)

section \<open>Source ids outside the valid range\<close>

text \<open>
  The guards compare with \<open>srcno > PLIC_SRCCNT\<close>.  Source id 0 and every id above 1024
  make the four configuration calls return at once, the state unchanged.
\<close>

lemma invalid_source_no_op:
  "srcno = 0 \<or> PLIC_SRCCNT < srcno \<Longrightarrow>
     plic_set_source_priority cfg srcno level s = s
     \<and> plic_enable_source_for_context cfg ctxno srcno s = s
     \<and> plic_disable_source_for_context cfg ctxno srcno s = s
     \<and> plic_complete_context_interrupt cfg ctxno srcno s = s"
  by (auto simp: plic_set_source_priority_def plic_enable_source_for_context_def
        plic_disable_source_for_context_def plic_complete_context_interrupt_def)

text \<open>
  C2 at source id 1024 = \<open>SRCCNT\<close>, which the guards let through: the four calls access
  registers.  \<open>set_source_priority(1024, level)\<close>, for a level that is not below
  \<open>PRIO_MIN\<close>, stores it at offset \<open>0x1000\<close>, the address of the first pending word; enable
  and disable load and store the word at offset \<open>0x2080\<close>; complete stores 1024 to the
  claim/complete register.  The second theorem is the first on a register file of zeros
  (for disable: of sevens) with \<open>PRIO_MIN = 0\<close> and level 7.
\<close>

theorem source_1024_is_accessed:
  assumes "PLIC_PRIO_MIN cfg \<le> level"
  shows "mmio (plic_set_source_priority cfg PLIC_SRCCNT level s)
           = mmio s @ [Store (PLIC_IOBASE cfg + 0x1000) level]
       \<and> mem (plic_set_source_priority cfg PLIC_SRCCNT level s) (pending cfg) = level
       \<and> mmio (plic_enable_source_for_context cfg 0 PLIC_SRCCNT s)
           = mmio s @ [Load (PLIC_IOBASE cfg + 0x2080) (mem s (PLIC_IOBASE cfg + 0x2080)),
                       Store (PLIC_IOBASE cfg + 0x2080) (mem s (PLIC_IOBASE cfg + 0x2080) OR 1)]
       \<and> mmio (plic_disable_source_for_context cfg 0 PLIC_SRCCNT s)
           = mmio s @ [Load (PLIC_IOBASE cfg + 0x2080) (mem s (PLIC_IOBASE cfg + 0x2080)),
                       Store (PLIC_IOBASE cfg + 0x2080) (mem s (PLIC_IOBASE cfg + 0x2080) AND NOT 1)]
       \<and> mmio (plic_complete_context_interrupt cfg 0 PLIC_SRCCNT s)
           = mmio s @ [Store (PLIC_IOBASE cfg + 0x200004) PLIC_SRCCNT]"
  using assms
  by (simp add: plic_set_source_priority_def plic_enable_source_for_context_def
        plic_disable_source_for_context_def plic_complete_context_interrupt_def
        volatile_load_def volatile_store_def enable_def claim_def pending_def PLIC_SRCCNT_def
        Let_def add.commute [of _ "PLIC_IOBASE cfg"] not_less [symmetric])

theorem source_1024_is_accessed_witness:
  "mmio (plic_set_source_priority cfg_min0 1024 7 regs_zero) = [Store 0x0C001000 7]
   \<and> mmio (plic_enable_source_for_context cfg_min0 0 1024 regs_zero)
       = [Load 0x0C002080 0, Store 0x0C002080 1]
   \<and> mmio (plic_disable_source_for_context cfg_min0 0 1024 regs_all7)
       = [Load 0x0C002080 7, Store 0x0C002080 6]
   \<and> mmio (plic_complete_context_interrupt cfg_min0 0 1024 regs_zero) = [Store 0x0C200004 1024]"
proof -
  have level: "PLIC_PRIO_MIN cfg_min0 \<le> 7"
    by (simp add: cfg_min0_def)
  show ?thesis
    using source_1024_is_accessed [OF level, of regs_zero]
          source_1024_is_accessed [OF level, of regs_all7]
    by (simp add: PLIC_SRCCNT_def cfg_min0_def regs_zero_def regs_all7_def)
qed

section \<open>Pending bits\<close>

text \<open>
  For a source id up to 1024, \<open>source_pending\<close> is one load of the pending word and
  returns 1 exactly when bit \<open>source mod 32\<close> of it is set; above 1024 it returns 0 with
  no access; it never changes the store or the console.
\<close>

lemma and_mask_pos: "(0 < (w::u32) AND 2 ^ n) = bit w n"
proof (cases "bit w n")
  case True
  then have "n < 32" by (auto dest: bit_imp_le_length)
  with True have "bit (w AND 2 ^ n) n" by (simp add: bit_and_iff bit_pow2_u32)
  then have "w AND 2 ^ n \<noteq> 0" by auto
  with True show ?thesis by (simp add: word_greater_zero_iff)
next
  case False
  then have "w AND 2 ^ n = 0"
    by (intro bit_word_eqI) (auto simp: bit_and_iff bit_pow2_u32)
  with False show ?thesis by simp
qed

lemma source_pending_in_range:
  "srcno \<le> PLIC_SRCCNT \<Longrightarrow>
     plic_source_pending cfg srcno s =
       ((if pending_bit cfg s srcno then 1 else 0),
        s\<lparr>mmio := mmio s @ [Load (PLIC_IOBASE cfg + 0x1000 + 4 * ucast (srcno div 32))
                               (mem s (PLIC_IOBASE cfg + 0x1000 + 4 * ucast (srcno div 32)))]\<rparr>)"
  by (simp add: plic_source_pending_def volatile_load_def pending_def pending_bit_def and_mask_pos
        not_less [symmetric])

lemma source_pending_above: "PLIC_SRCCNT < srcno \<Longrightarrow> plic_source_pending cfg srcno s = (0, s)"
  by (simp add: plic_source_pending_def)

lemma source_pending_read_only:
  "mem (snd (plic_source_pending cfg srcno s)) = mem s
   \<and> console (snd (plic_source_pending cfg srcno s)) = console s"
  by (simp add: plic_source_pending_def volatile_load_def Let_def split: prod.splits)

text \<open>
  C6 at source ids 1024 and 0, both outside \<open>[1, SRCCNT - 1]\<close>: \<open>source_pending\<close> loads
  a word and returns 1 when bit 0 of it is set, where the claim says it returns "not
  pending".
\<close>

theorem source_pending_reads_outside_range:
  "plic_source_pending cfg_min0 1024 regs_pend_1080
     = (1, regs_pend_1080\<lparr>mmio := [Load 0x0C001080 1]\<rparr>)
   \<and> plic_source_pending cfg_min0 0 regs_pend_1000
     = (1, regs_pend_1000\<lparr>mmio := [Load 0x0C001000 1]\<rparr>)"
  by (simp add: plic_source_pending_def volatile_load_def pending_def PLIC_SRCCNT_def
        cfg_min0_def regs_pend_1080_def regs_pend_1000_def)

section \<open>The facade: enable_irq and disable_irq\<close>

text \<open>
  With \<open>irqno\<close> 0, negative (above \<open>SRCCNT\<close> once converted to \<open>uint32_t\<close>) or above
  1024, \<open>enable_irq\<close> prints its trace line and does nothing else.
\<close>

lemma enable_irq_invalid_no_register_access:
  "irqno = 0 \<or> PLIC_SRCCNT < irqno \<Longrightarrow>
     plic_enable_irq cfg irqno prio s
       = trace ''%s(irqno=%d,prio=%d)'' [ArgStr ''plic_enable_irq'', ArgInt irqno, ArgInt prio] s"
  by (auto simp: plic_enable_irq_def plic_set_source_priority_def)

lemma negative_irq_above_srccnt: "(irqno::c_int) <s 0 \<Longrightarrow> PLIC_SRCCNT < irqno"
proof -
  assume neg: "irqno <s 0"
  have "\<not> uint irqno < 2 ^ 31"
  proof
    assume "uint irqno < 2 ^ 31"
    moreover have "- (2 ^ 31) \<le> uint irqno"
      using order_trans [of "- (2 ^ 31)" 0 "uint irqno"] by simp
    ultimately have "signed_take_bit 31 (uint irqno) = uint irqno"
      by (intro signed_take_bit_int_eq_self)
    then have "sint irqno = uint irqno" by (simp add: sint_uint)
    with neg show False by (simp add: word_sless_alt)
  qed
  then show ?thesis
    by (simp add: PLIC_SRCCNT_def word_less_def)
qed

text \<open>
  C10 at \<open>irqno = 1024\<close>, which is not a valid source id: \<open>enable_irq(1024, 3)\<close> stores 3
  at offset \<open>0x1000\<close>, the first pending word, so that the pending bit of source 1 reads
  as set afterwards.
\<close>

theorem enable_irq_1024_writes:
  "plic_enable_irq cfg_min0 1024 3 regs_zero
     = \<lparr>mem = (mem regs_zero)(0x0C001000 := 3), mmio = [Store 0x0C001000 3],
        console = [Trace ''%s(irqno=%d,prio=%d)'' [ArgStr ''plic_enable_irq'', ArgInt 1024, ArgInt 3]]\<rparr>
   \<and> pending_bit cfg_min0 (plic_enable_irq cfg_min0 1024 3 regs_zero) 1"
  by (simp add: plic_enable_irq_def plic_set_source_priority_def trace_def volatile_store_def
        pending_bit_def PLIC_SRCCNT_def cfg_min0_def regs_zero_def)

lemma not_positive_irq: "(\<not> 0 <s (irqno::c_int)) = (irqno \<le>s 0)"
  by (auto simp: word_sless_alt word_sle_eq)

lemma positive_irq_nonzero: "0 <s (irqno::c_int) \<Longrightarrow> irqno \<noteq> 0"
  by (auto simp: word_sless_alt)

text \<open>
  C7, as amended.  \<open>disable_irq(irq)\<close> passes level 0 to \<open>set_source_priority\<close>.  For
  \<open>0 < irq < SRCCNT\<close> and \<open>PRIO_MIN = 0\<close> the call is one store of 0 to the priority
  register of \<open>irq\<close>, which then holds the minimum priority.  For a positive \<open>irq\<close> above
  \<open>SRCCNT\<close> the call changes nothing.  For \<open>irq \<le> 0\<close> the call appends one diagnostic line
  to the console; it makes no register access and the store is unchanged.
\<close>

theorem disable_irq_cases:
  "(0 <s irqno \<and> irqno < PLIC_SRCCNT \<and> PLIC_PRIO_MIN cfg = 0 \<longrightarrow>
      plic_disable_irq cfg irqno s = volatile_store (PLIC_IOBASE cfg + 4 * ucast irqno) 0 s
      \<and> prio_reg cfg (plic_disable_irq cfg irqno s) irqno = PLIC_PRIO_MIN cfg)
   \<and> (0 <s irqno \<and> PLIC_SRCCNT < irqno \<longrightarrow> plic_disable_irq cfg irqno s = s)
   \<and> (irqno \<le>s 0 \<longrightarrow>
        plic_disable_irq cfg irqno s
          = s\<lparr>console := console s @ [Debug ''plic_disable_irq called with irqno = %d'' [ArgInt irqno]]\<rparr>)"
proof -
  have valid: "0 <s irqno \<and> irqno < PLIC_SRCCNT \<and> PLIC_PRIO_MIN cfg = 0 \<longrightarrow>
      plic_disable_irq cfg irqno s = volatile_store (PLIC_IOBASE cfg + 4 * ucast irqno) 0 s
      \<and> prio_reg cfg (plic_disable_irq cfg irqno s) irqno = PLIC_PRIO_MIN cfg"
    using positive_irq_nonzero [of irqno]
    by (auto simp: plic_disable_irq_def plic_set_source_priority_def prio_reg_def volatile_store_def)
  have above: "0 <s irqno \<and> PLIC_SRCCNT < irqno \<longrightarrow> plic_disable_irq cfg irqno s = s"
    by (simp add: plic_disable_irq_def plic_set_source_priority_def)
  have nonpos: "irqno \<le>s 0 \<longrightarrow>
        plic_disable_irq cfg irqno s
          = s\<lparr>console := console s @ [Debug ''plic_disable_irq called with irqno = %d'' [ArgInt irqno]]\<rparr>"
    by (simp add: plic_disable_irq_def debug_def not_positive_irq [symmetric])
  from valid above nonpos show ?thesis by blast
qed

theorem disable_irq_cases_witness:
  "prio_reg cfg_min0 (plic_disable_irq cfg_min0 5 regs_all7) 5 = PLIC_PRIO_MIN cfg_min0
   \<and> plic_disable_irq cfg_min0 2000 regs_all7 = regs_all7
   \<and> plic_disable_irq cfg_min0 (- 1) regs_all7
       = regs_all7\<lparr>console := console regs_all7 @
           [Debug ''plic_disable_irq called with irqno = %d'' [ArgInt (- 1)]]\<rparr>"
proof -
  have five: "0 <s (5::c_int) \<and> (5::c_int) < PLIC_SRCCNT \<and> PLIC_PRIO_MIN cfg_min0 = 0"
    and big: "0 <s (2000::c_int) \<and> PLIC_SRCCNT < (2000::c_int)"
    and neg: "(- 1 :: c_int) \<le>s 0"
    by (simp_all add: PLIC_SRCCNT_def cfg_min0_def word_sless_alt)
  show ?thesis
    using disable_irq_cases [of 5 cfg_min0 regs_all7] disable_irq_cases [of 2000 cfg_min0 regs_all7]
          disable_irq_cases [of "- 1" cfg_min0 regs_all7] five big neg
    by blast
qed

text \<open>
  C7 as stated fails for a positive \<open>irq\<close>, on a register file where every register holds
  7.  \<open>disable_irq(2000)\<close> with \<open>PRIO_MIN = 0\<close> leaves 7 at offset \<open>4 * 2000\<close>: ids above
  \<open>SRCCNT\<close> are ignored.  \<open>disable_irq(5)\<close> with \<open>PRIO_MIN = 1\<close> leaves 7 in the priority
  register of source 5: level 0 is below \<open>PRIO_MIN\<close> and is rejected.
\<close>

theorem disable_irq_counterexample:
  "0 <s (2000::c_int)
   \<and> prio_reg cfg_min0 (plic_disable_irq cfg_min0 2000 regs_all7) 2000 = 7
   \<and> PLIC_PRIO_MIN cfg_min0 = 0
   \<and> 0 <s (5::c_int)
   \<and> prio_reg cfg_min1 (plic_disable_irq cfg_min1 5 regs_all7) 5 = 7
   \<and> PLIC_PRIO_MIN cfg_min1 = 1"
  by (simp add: plic_disable_irq_def plic_set_source_priority_def prio_reg_def PLIC_SRCCNT_def
        cfg_min0_def cfg_min1_def regs_all7_def word_sless_alt)

section \<open>Initialisation\<close>

text \<open>
  The loop of \<open>plic_init\<close>, by induction along its own recursion.  An iteration touches
  the priority register and the enable bit of its own source only, and none for source 0;
  so what an iteration has set is kept by the iterations after it.
\<close>

declare plic_init_loop.simps [simp del]

lemma uint_loop_counter:
  "0 \<le> i \<Longrightarrow> i < uint PLIC_SRCCNT \<Longrightarrow> uint (word_of_int i :: u32) = i"
  by (simp add: PLIC_SRCCNT_def uint_word_of_int take_bit_int_eq_self)

lemma loop_counter_in_range:
  "0 \<le> i \<Longrightarrow> i < uint PLIC_SRCCNT \<Longrightarrow> (word_of_int i :: u32) \<le> PLIC_SRCCNT"
  using uint_loop_counter [of i] by (simp add: word_le_def)

lemma loop_counter_eq:
  "0 \<le> i \<Longrightarrow> i < uint PLIC_SRCCNT \<Longrightarrow> (k = (word_of_int i :: u32)) = (uint k = i)"
  using uint_loop_counter [of i] by (auto simp: word_uint_eq_iff)

lemma enable_bit_init_step:
  "enable_bit cfg (plic_enable_source_for_context cfg 0 j (plic_set_source_priority cfg j 0 s)) k \<longleftrightarrow>
     (k = j \<and> j \<le> PLIC_SRCCNT \<and> j \<noteq> 0) \<or> enable_bit cfg s k"
  by (simp add: enable_bit_enable_source enable_bit_set_source_priority)

lemma prio_reg_init_step:
  "k \<le> PLIC_SRCCNT \<Longrightarrow>
     prio_reg cfg (plic_enable_source_for_context cfg 0 j (plic_set_source_priority cfg j 0 s)) k =
       (if k = j \<and> j \<le> PLIC_SRCCNT \<and> j \<noteq> 0 \<and> PLIC_PRIO_MIN cfg = 0 then 0 else prio_reg cfg s k)"
  by (simp add: prio_reg_enable_source prio_reg_set_source_priority)

lemma init_loop_keeps_enable_bit:
  "0 \<le> i \<Longrightarrow> k = 0 \<or> uint k < i \<Longrightarrow>
     enable_bit cfg (plic_init_loop cfg i s) k = enable_bit cfg s k"
proof (induction cfg i s rule: plic_init_loop.induct)
  case (1 cfg i s)
  show ?case
  proof (cases "i < uint PLIC_SRCCNT")
    case True
    let ?s' = "plic_enable_source_for_context cfg 0 (word_of_int i) (plic_set_source_priority cfg (word_of_int i) 0 s)"
    have "enable_bit cfg (plic_init_loop cfg i s) k = enable_bit cfg (plic_init_loop cfg (i + 1) ?s') k"
      using True by (subst plic_init_loop.simps) simp
    also have "\<dots> = enable_bit cfg ?s' k"
      using "1.IH" [OF True] "1.prems" by auto
    also have "\<dots> = enable_bit cfg s k"
      using "1.prems" True loop_counter_eq [of i k] loop_counter_eq [of i 0]
      by (auto simp: enable_bit_init_step)
    finally show ?thesis .
  next
    case False
    then show ?thesis by (subst plic_init_loop.simps) simp
  qed
qed

lemma init_loop_enable_bit_stays:
  "enable_bit cfg s k \<Longrightarrow> enable_bit cfg (plic_init_loop cfg i s) k"
proof (induction cfg i s rule: plic_init_loop.induct)
  case (1 cfg i s)
  show ?case
  proof (cases "i < uint PLIC_SRCCNT")
    case True
    let ?s' = "plic_enable_source_for_context cfg 0 (word_of_int i) (plic_set_source_priority cfg (word_of_int i) 0 s)"
    have "enable_bit cfg ?s' k"
      using "1.prems" by (simp add: enable_bit_init_step)
    then have "enable_bit cfg (plic_init_loop cfg (i + 1) ?s') k"
      using "1.IH" [OF True] by simp
    then show ?thesis
      using True by (subst plic_init_loop.simps) simp
  next
    case False
    with "1.prems" show ?thesis by (subst plic_init_loop.simps) simp
  qed
qed

lemma init_loop_sets_enable_bit:
  "0 \<le> i \<Longrightarrow> i \<le> uint k \<Longrightarrow> k < PLIC_SRCCNT \<Longrightarrow> k \<noteq> 0 \<Longrightarrow>
     enable_bit cfg (plic_init_loop cfg i s) k"
proof (induction cfg i s rule: plic_init_loop.induct)
  case (1 cfg i s)
  from "1.prems" have lt: "i < uint PLIC_SRCCNT"
    by (simp add: word_less_def)
  let ?s' = "plic_enable_source_for_context cfg 0 (word_of_int i) (plic_set_source_priority cfg (word_of_int i) 0 s)"
  have unfold: "plic_init_loop cfg i s = plic_init_loop cfg (i + 1) ?s'"
    using lt by (subst plic_init_loop.simps) simp
  show ?case
  proof (cases "uint k = i")
    case True
    then have "k = word_of_int i" using loop_counter_eq [of i k] "1.prems" lt by simp
    then have "enable_bit cfg ?s' k"
      using "1.prems" loop_counter_in_range [of i] lt by (simp add: enable_bit_init_step)
    then show ?thesis
      by (simp add: unfold init_loop_enable_bit_stays)
  next
    case False
    with "1.prems" have "i + 1 \<le> uint k" by simp
    then show ?thesis
      using "1.IH" [OF lt] "1.prems" by (simp add: unfold)
  qed
qed


lemma init_loop_keeps_prio_reg:
  "0 \<le> i \<Longrightarrow> k \<le> PLIC_SRCCNT \<Longrightarrow> k = 0 \<or> uint k < i \<or> PLIC_PRIO_MIN cfg \<noteq> 0 \<Longrightarrow>
     prio_reg cfg (plic_init_loop cfg i s) k = prio_reg cfg s k"
proof (induction cfg i s rule: plic_init_loop.induct)
  case (1 cfg i s)
  show ?case
  proof (cases "i < uint PLIC_SRCCNT")
    case True
    let ?s' = "plic_enable_source_for_context cfg 0 (word_of_int i) (plic_set_source_priority cfg (word_of_int i) 0 s)"
    have "prio_reg cfg (plic_init_loop cfg i s) k = prio_reg cfg (plic_init_loop cfg (i + 1) ?s') k"
      using True by (subst plic_init_loop.simps) simp
    also have "\<dots> = prio_reg cfg ?s' k"
      using "1.IH" [OF True] "1.prems" by auto
    also have "\<dots> = prio_reg cfg s k"
      using "1.prems" True loop_counter_eq [of i k] loop_counter_eq [of i 0]
      by (auto simp: prio_reg_init_step)
    finally show ?thesis .
  next
    case False
    then show ?thesis by (subst plic_init_loop.simps) simp
  qed
qed

lemma init_loop_sets_prio_reg:
  "0 \<le> i \<Longrightarrow> i \<le> uint k \<Longrightarrow> k < PLIC_SRCCNT \<Longrightarrow> k \<noteq> 0 \<Longrightarrow> PLIC_PRIO_MIN cfg = 0 \<Longrightarrow>
     prio_reg cfg (plic_init_loop cfg i s) k = 0"
proof (induction cfg i s rule: plic_init_loop.induct)
  case (1 cfg i s)
  from "1.prems" have lt: "i < uint PLIC_SRCCNT"
    by (simp add: word_less_def)
  from "1.prems" have le: "k \<le> PLIC_SRCCNT" by simp
  let ?s' = "plic_enable_source_for_context cfg 0 (word_of_int i) (plic_set_source_priority cfg (word_of_int i) 0 s)"
  have unfold: "plic_init_loop cfg i s = plic_init_loop cfg (i + 1) ?s'"
    using lt by (subst plic_init_loop.simps) simp
  show ?case
  proof (cases "uint k = i")
    case True
    then have "k = word_of_int i" using loop_counter_eq [of i k] "1.prems" lt by simp
    then have "prio_reg cfg ?s' k = 0"
      using "1.prems" le by (simp add: prio_reg_init_step)
    moreover have "prio_reg cfg (plic_init_loop cfg (i + 1) ?s') k = prio_reg cfg ?s' k"
      using True "1.prems" le by (intro init_loop_keeps_prio_reg) simp_all
    ultimately show ?thesis
      by (simp add: unfold)
  next
    case False
    with "1.prems" have "i + 1 \<le> uint k" by simp
    then show ?thesis
      using "1.IH" [OF lt] "1.prems" by (simp add: unfold)
  qed
qed

text \<open>
  C3, as amended.  After \<open>plic_init\<close>, from any starting state, every source id from 1 to
  \<open>SRCCNT - 1\<close> has its enable bit for context 0 set and, when \<open>PRIO_MIN\<close> is 0 (the level
  \<open>plic_init\<close> passes), its priority register equal to \<open>PRIO_MIN\<close>.  Source 0 is skipped:
  its priority register and its enable bit are what they were before.
\<close>

theorem plic_init_establishes:
  "(1 \<le> src \<and> src < PLIC_SRCCNT \<longrightarrow>
      enable_bit cfg (plic_init cfg s) src
      \<and> (PLIC_PRIO_MIN cfg = 0 \<longrightarrow> prio_reg cfg (plic_init cfg s) src = PLIC_PRIO_MIN cfg))
   \<and> enable_bit cfg (plic_init cfg s) 0 = enable_bit cfg s 0
   \<and> prio_reg cfg (plic_init cfg s) 0 = prio_reg cfg s 0"
proof -
  have valid: "enable_bit cfg (plic_init cfg s) src
      \<and> (PLIC_PRIO_MIN cfg = 0 \<longrightarrow> prio_reg cfg (plic_init cfg s) src = PLIC_PRIO_MIN cfg)"
    if "1 \<le> src \<and> src < PLIC_SRCCNT"
  proof -
    from that have nz: "src \<noteq> 0" by auto
    have "enable_bit cfg (plic_init_loop cfg 0 s) src"
      using that nz by (intro init_loop_sets_enable_bit) simp_all
    moreover have "prio_reg cfg (plic_init_loop cfg 0 s) src = 0" if "PLIC_PRIO_MIN cfg = 0"
      using that \<open>1 \<le> src \<and> src < PLIC_SRCCNT\<close> nz by (intro init_loop_sets_prio_reg) simp_all
    ultimately show ?thesis
      by (simp add: plic_init_def)
  qed
  have zero_enable: "enable_bit cfg (plic_init cfg s) 0 = enable_bit cfg s 0"
    unfolding plic_init_def by (rule init_loop_keeps_enable_bit) simp_all
  have zero_prio: "prio_reg cfg (plic_init cfg s) 0 = prio_reg cfg s 0"
    unfolding plic_init_def by (rule init_loop_keeps_prio_reg) simp_all
  from valid zero_enable zero_prio show ?thesis by blast
qed

theorem plic_init_establishes_witness:
  "enable_bit cfg_min0 (plic_init cfg_min0 regs_all7) 1023
   \<and> prio_reg cfg_min0 (plic_init cfg_min0 regs_all7) 1023 = PLIC_PRIO_MIN cfg_min0
   \<and> enable_bit cfg_min0 (plic_init cfg_min0 regs_all7) 0 = enable_bit cfg_min0 regs_all7 0"
proof -
  have src: "(1::u32) \<le> 1023 \<and> (1023::u32) < PLIC_SRCCNT" and lo: "PLIC_PRIO_MIN cfg_min0 = 0"
    by (simp_all add: PLIC_SRCCNT_def cfg_min0_def)
  show ?thesis
    using plic_init_establishes [of 1023 cfg_min0 regs_all7] src lo
    by blast
qed

text \<open>
  C3 as stated fails for source 0, and for the priorities when \<open>PRIO_MIN\<close> is not 0.
  After \<open>plic_init\<close> on a register file of zeros the enable bit of source 0 is clear.
  After \<open>plic_init\<close> on a register file of sevens the priority register of source 0 holds
  7 (with \<open>PRIO_MIN = 0\<close>), and with \<open>PRIO_MIN = 1\<close> so does that of source 5, level 0
  being rejected.
\<close>

theorem plic_init_counterexample:
  "\<not> enable_bit cfg_min0 (plic_init cfg_min0 regs_zero) 0
   \<and> prio_reg cfg_min0 (plic_init cfg_min0 regs_all7) 0 = 7
   \<and> PLIC_PRIO_MIN cfg_min0 = 0
   \<and> prio_reg cfg_min1 (plic_init cfg_min1 regs_all7) 5 = 7
   \<and> PLIC_PRIO_MIN cfg_min1 = 1"
proof -
  have "enable_bit cfg_min0 (plic_init cfg_min0 regs_zero) 0 = enable_bit cfg_min0 regs_zero 0"
    unfolding plic_init_def by (rule init_loop_keeps_enable_bit) simp_all
  moreover have "prio_reg cfg_min0 (plic_init cfg_min0 regs_all7) 0 = prio_reg cfg_min0 regs_all7 0"
    unfolding plic_init_def by (rule init_loop_keeps_prio_reg) simp_all
  moreover have "prio_reg cfg_min1 (plic_init cfg_min1 regs_all7) 5 = prio_reg cfg_min1 regs_all7 5"
    unfolding plic_init_def
    by (rule init_loop_keeps_prio_reg) (simp_all add: PLIC_SRCCNT_def cfg_min1_def)
  ultimately show ?thesis
    by (simp add: enable_bit_def prio_reg_def regs_zero_def regs_all7_def cfg_min0_def cfg_min1_def)
qed

section \<open>The addresses of the register accesses\<close>

text \<open>
  What each call adds to the record of accesses.  The exported functions make no access
  of their own: theirs are those of the internal functions they call.
\<close>

lemma mmio_set_source_priority:
  "mmio (plic_set_source_priority cfg srcno level s) = mmio s @
     (if srcno > PLIC_SRCCNT \<or> srcno = 0 \<or> level < PLIC_PRIO_MIN cfg then []
      else [Store (PLIC_IOBASE cfg + 4 * ucast srcno) level])"
  by (simp add: plic_set_source_priority_def volatile_store_def)

lemma mmio_enable_source:
  "mmio (plic_enable_source_for_context cfg ctxno srcno s) = mmio s @
     (if ctxno \<noteq> 0 \<or> srcno > PLIC_SRCCNT \<or> srcno = 0 then []
      else [Load (PLIC_IOBASE cfg + 0x2000 + 4 * ucast (srcno div 32))
              (mem s (PLIC_IOBASE cfg + 0x2000 + 4 * ucast (srcno div 32))),
            Store (PLIC_IOBASE cfg + 0x2000 + 4 * ucast (srcno div 32))
              (mem s (PLIC_IOBASE cfg + 0x2000 + 4 * ucast (srcno div 32))
                 OR push_bit (unat (srcno mod 32)) 1)])"
  by (simp add: plic_enable_source_for_context_def volatile_store_def volatile_load_def enable_def Let_def)

lemma mmio_disable_source:
  "mmio (plic_disable_source_for_context cfg ctxno srcno s) = mmio s @
     (if ctxno \<noteq> 0 \<or> srcno > PLIC_SRCCNT \<or> srcno = 0 then []
      else [Load (PLIC_IOBASE cfg + 0x2000 + 4 * ucast (srcno div 32))
              (mem s (PLIC_IOBASE cfg + 0x2000 + 4 * ucast (srcno div 32))),
            Store (PLIC_IOBASE cfg + 0x2000 + 4 * ucast (srcno div 32))
              (mem s (PLIC_IOBASE cfg + 0x2000 + 4 * ucast (srcno div 32))
                 AND NOT (push_bit (unat (srcno mod 32)) 1))])"
  by (simp add: plic_disable_source_for_context_def volatile_store_def volatile_load_def enable_def Let_def)

lemma mmio_source_pending:
  "mmio (snd (plic_source_pending cfg srcno s)) = mmio s @
     (if srcno > PLIC_SRCCNT then []
      else [Load (PLIC_IOBASE cfg + 0x1000 + 4 * ucast (srcno div 32))
              (mem s (PLIC_IOBASE cfg + 0x1000 + 4 * ucast (srcno div 32)))])"
  by (simp add: plic_source_pending_def volatile_load_def pending_def Let_def)

lemma mmio_set_context_threshold:
  "mmio (plic_set_context_threshold cfg ctxno level s) = mmio s @
     (if ctxno \<noteq> 0 then [] else [Store (PLIC_IOBASE cfg + 0x200000) level])"
  by (simp add: plic_set_context_threshold_def volatile_store_def threshold_def)

lemma mmio_claim_context_interrupt:
  "mmio (snd (plic_claim_context_interrupt cfg ctxno s)) = mmio s @
     (if ctxno \<noteq> 0 then [] else [Load (PLIC_IOBASE cfg + 0x200004) (mem s (PLIC_IOBASE cfg + 0x200004))])"
  by (simp add: plic_claim_context_interrupt_def volatile_load_def claim_def)

lemma mmio_complete_context_interrupt:
  "mmio (plic_complete_context_interrupt cfg ctxno srcno s) = mmio s @
     (if ctxno \<noteq> 0 \<or> srcno > PLIC_SRCCNT \<or> srcno = 0 then []
      else [Store (PLIC_IOBASE cfg + 0x200004) srcno])"
  by (simp add: plic_complete_context_interrupt_def volatile_store_def claim_def)

lemma mmio_trace: "mmio (trace fmt args s) = mmio s"
  by (simp add: trace_def)

lemma mmio_debug: "mmio (debug fmt args s) = mmio s"
  by (simp add: debug_def)

lemmas mmio_of_call = mmio_set_source_priority mmio_enable_source mmio_disable_source
  mmio_source_pending mmio_set_context_threshold mmio_claim_context_interrupt
  mmio_complete_context_interrupt mmio_trace mmio_debug

lemma init_loop_accesses:
  "0 \<le> i \<Longrightarrow> \<exists>xs. mmio (plic_init_loop cfg i s) = mmio s @ xs
     \<and> set (map access_addr xs)
         \<subseteq> (\<lambda>src. PLIC_IOBASE cfg + 4 * ucast src) ` {src. src < PLIC_SRCCNT}
           \<union> (\<lambda>src. PLIC_IOBASE cfg + 0x2000 + 4 * ucast (src div 32)) ` {src. src < PLIC_SRCCNT}"
proof (induction cfg i s rule: plic_init_loop.induct)
  case (1 cfg i s)
  let ?A = "(\<lambda>src. PLIC_IOBASE cfg + 4 * ucast src) ` {src. src < PLIC_SRCCNT}
           \<union> (\<lambda>src. PLIC_IOBASE cfg + 0x2000 + 4 * ucast (src div 32)) ` {src. src < PLIC_SRCCNT}"
  show ?case
  proof (cases "i < uint PLIC_SRCCNT")
    case True
    let ?w = "word_of_int i :: u32"
    let ?s' = "plic_enable_source_for_context cfg 0 ?w (plic_set_source_priority cfg ?w 0 s)"
    have w: "?w < PLIC_SRCCNT"
      using uint_loop_counter [of i] True "1.prems" by (simp add: word_less_def)
    then have inA: "PLIC_IOBASE cfg + 4 * ucast ?w \<in> ?A"
      "PLIC_IOBASE cfg + 0x2000 + 4 * ucast (?w div 32) \<in> ?A"
      by blast+
    obtain ys where ys: "mmio ?s' = mmio s @ ys" "set (map access_addr ys) \<subseteq> ?A"
      using inA by (auto simp: mmio_of_call)
    obtain xs where xs: "mmio (plic_init_loop cfg (i + 1) ?s') = mmio ?s' @ xs"
      "set (map access_addr xs) \<subseteq> ?A"
      using "1.IH" [OF True] "1.prems" by auto
    have "plic_init_loop cfg i s = plic_init_loop cfg (i + 1) ?s'"
      using True by (subst plic_init_loop.simps) simp
    with xs ys have "mmio (plic_init_loop cfg i s) = mmio s @ (ys @ xs)"
      "set (map access_addr (ys @ xs)) \<subseteq> ?A"
      by auto
    then show ?thesis by blast
  next
    case False
    then have "plic_init_loop cfg i s = s" by (subst plic_init_loop.simps) simp
    then show ?thesis by simp
  qed
qed

lemma accessed_append: "mmio s' = mmio s @ xs \<Longrightarrow> accessed s s' = map access_addr xs"
  by (simp add: accessed_def)

section \<open>The sums of lines 22 to 25\<close>

lemma uint_ucast_down:
  "uint (b::u64) < 2 ^ 32 \<Longrightarrow> uint (ucast b :: 32 word) = uint b"
  by (simp add: unsigned_ucast_eq take_bit_int_eq_self)

lemma uint_sum32:
  assumes "uint (b::u64) + uint (off::u64) < 2 ^ 32"
  shows "uint ((ucast b :: 32 word) + ucast off) = uint b + uint off"
proof -
  have b: "uint b < 2 ^ 32" and o: "uint off < 2 ^ 32"
    using assms uint_nonnegative [of b] uint_nonnegative [of off] by linarith+
  have "uint (ucast b :: 32 word) + uint (ucast off :: 32 word) < 2 ^ LENGTH(32)"
    using assms b o by (simp add: uint_ucast_down)
  then have "uint ((ucast b :: 32 word) + ucast off) = uint (ucast b :: 32 word) + uint (ucast off :: 32 word)"
    by (simp only: uint_add_lem)
  then show ?thesis using b o by (simp add: uint_ucast_down)
qed

lemma ucast_sum32:
  assumes "uint (b::u64) + uint (off::u64) < 2 ^ 32"
  shows "(ucast ((ucast b :: 32 word) + ucast off) :: u64) = b + off"
proof -
  have "(ucast ((ucast b :: 32 word) + ucast off) :: u64)
          = word_of_int (uint ((ucast b :: 32 word) + ucast off))"
    by (rule ucast_eq)
  also have "\<dots> = word_of_int (uint b + uint off)"
    by (simp only: uint_sum32 [OF assms])
  also have "\<dots> = b + off" by simp
  finally show ?thesis .
qed

lemma scast_sum32:
  assumes "uint (b::u64) + uint (off::u64) < 2 ^ 31"
  shows "(scast ((ucast b :: 32 word) + ucast off) :: u64) = b + off"
proof -
  have lt: "uint b + uint off < 2 ^ 32" using assms by simp
  let ?w = "(ucast b :: 32 word) + ucast off"
  have u: "uint ?w = uint b + uint off" by (rule uint_sum32 [OF lt])
  have "- (2 ^ 31) \<le> uint ?w"
    using order_trans [of "- (2 ^ 31)" 0 "uint ?w"] by simp
  moreover have "uint ?w < 2 ^ 31" using assms u by simp
  ultimately have "signed_take_bit 31 (uint ?w) = uint ?w"
    by (intro signed_take_bit_int_eq_self)
  then have s: "sint ?w = uint b + uint off" by (simp add: sint_uint u)
  have "(scast ?w :: u64) = word_of_int (sint ?w)" by (rule scast_eq)
  also have "\<dots> = word_of_int (uint b + uint off)" by (simp only: s)
  also have "\<dots> = b + off" by simp
  finally show ?thesis .
qed

text \<open>
  At a base that fits, the sum C forms is the 64-bit sum, for every offset up to
  \<open>0x200004\<close>: the four globals of the model are the four globals of the source.
\<close>

lemma literal_sum_fits:
  assumes "iobase_fits cfg" and "off \<le> 0x200004"
  shows "literal_sum (PLIC_IOBASE cfg) off = PLIC_IOBASE cfg + off"
proof -
  have o: "uint off \<le> 0x200004" using assms(2) by (simp add: word_le_def)
  consider (int) "PLIC_IOBASE cfg \<le> 0x7FDFFFFB"
    | (uint) "0x80000000 \<le> PLIC_IOBASE cfg" "PLIC_IOBASE cfg \<le> 0xFFDFFFFB"
    | (long) "0x100000000 \<le> PLIC_IOBASE cfg"
    using assms(1) unfolding iobase_fits_def
    by (auto simp: word_le_def)
  then show ?thesis
  proof cases
    case int
    then have b: "uint (PLIC_IOBASE cfg) \<le> 0x7FDFFFFB" by (simp add: word_le_def)
    then have "PLIC_IOBASE cfg \<le> 0x7FFFFFFF" by (simp add: word_le_def)
    moreover have "uint (PLIC_IOBASE cfg) + uint off < 2 ^ 31" using b o by simp
    ultimately show ?thesis by (simp add: literal_sum_def scast_sum32)
  next
    case uint
    then have b: "0x80000000 \<le> uint (PLIC_IOBASE cfg)" "uint (PLIC_IOBASE cfg) \<le> 0xFFDFFFFB"
      by (simp_all add: word_le_def)
    then have "\<not> PLIC_IOBASE cfg \<le> 0x7FFFFFFF" "PLIC_IOBASE cfg \<le> 0xFFFFFFFF"
      by (simp_all add: word_le_def)
    moreover have "uint (PLIC_IOBASE cfg) + uint off < 2 ^ 32" using b o by simp
    ultimately show ?thesis by (simp add: literal_sum_def ucast_sum32)
  next
    case long
    then have "0x100000000 \<le> uint (PLIC_IOBASE cfg)" by (simp add: word_le_def)
    then have "\<not> PLIC_IOBASE cfg \<le> 0x7FFFFFFF" "\<not> PLIC_IOBASE cfg \<le> 0xFFFFFFFF"
      by (simp_all add: word_le_def)
    then show ?thesis by (simp add: literal_sum_def)
  qed
qed

lemma globals_are_literal_sums:
  assumes "iobase_fits cfg"
  shows "pending cfg = literal_sum (PLIC_IOBASE cfg) 0x1000
       \<and> enable cfg = literal_sum (PLIC_IOBASE cfg) 0x2000
       \<and> threshold cfg = literal_sum (PLIC_IOBASE cfg) 0x200000
       \<and> claim cfg = literal_sum (PLIC_IOBASE cfg) 0x200004"
  by (simp add: pending_def enable_def threshold_def claim_def literal_sum_fits [OF assms])

lemma default_base_fits: "iobase_fits cfg_min0 \<and> iobase_fits cfg_min1"
  by (simp add: iobase_fits_def cfg_min0_def cfg_min1_def)

text \<open>
  At a base that fits, the shipped \<open>0x0C000000\<close> among them, the accesses a call makes are
  at the base address plus the offsets of the layout table and nowhere else:
  \<open>set_source_priority\<close> (and \<open>enable_irq\<close>, \<open>disable_irq\<close>) at most one access, at
  \<open>base + 4 * source\<close>; \<open>source_pending\<close> at most one, at
  \<open>base + 0x1000 + 4 * (source div 32)\<close>; enable and disable none or a load and a store,
  both at \<open>base + 0x2000 + 4 * (source div 32)\<close>; \<open>set_context_threshold\<close> at most one, at
  \<open>base + 0x200000\<close>; claim and complete (and \<open>claim_irq\<close>, \<open>close_irq\<close>) at most one, at
  \<open>base + 0x200004\<close>; and every access of \<open>plic_init\<close> is at the priority or the enable
  address of a source id below \<open>SRCCNT\<close>.
\<close>

lemma register_addresses_when_base_fits:
  assumes "iobase_fits cfg"
  shows "pending cfg = literal_sum (PLIC_IOBASE cfg) 0x1000
   \<and> enable cfg = literal_sum (PLIC_IOBASE cfg) 0x2000
   \<and> threshold cfg = literal_sum (PLIC_IOBASE cfg) 0x200000
   \<and> claim cfg = literal_sum (PLIC_IOBASE cfg) 0x200004
   \<and> accessed s (plic_set_source_priority cfg srcno level s) \<in> {[], [PLIC_IOBASE cfg + 4 * ucast srcno]}
   \<and> accessed s (snd (plic_source_pending cfg srcno s))
       \<in> {[], [PLIC_IOBASE cfg + 0x1000 + 4 * ucast (srcno div 32)]}
   \<and> accessed s (plic_enable_source_for_context cfg ctxno srcno s)
       \<in> {[], [PLIC_IOBASE cfg + 0x2000 + 4 * ucast (srcno div 32),
                PLIC_IOBASE cfg + 0x2000 + 4 * ucast (srcno div 32)]}
   \<and> accessed s (plic_disable_source_for_context cfg ctxno srcno s)
       \<in> {[], [PLIC_IOBASE cfg + 0x2000 + 4 * ucast (srcno div 32),
                PLIC_IOBASE cfg + 0x2000 + 4 * ucast (srcno div 32)]}
   \<and> accessed s (plic_set_context_threshold cfg ctxno level s) \<in> {[], [PLIC_IOBASE cfg + 0x200000]}
   \<and> accessed s (snd (plic_claim_context_interrupt cfg ctxno s)) \<in> {[], [PLIC_IOBASE cfg + 0x200004]}
   \<and> accessed s (plic_complete_context_interrupt cfg ctxno srcno s) \<in> {[], [PLIC_IOBASE cfg + 0x200004]}
   \<and> accessed s (plic_enable_irq cfg irqno prio s) \<in> {[], [PLIC_IOBASE cfg + 4 * ucast irqno]}
   \<and> accessed s (plic_disable_irq cfg irqno s) \<in> {[], [PLIC_IOBASE cfg + 4 * ucast irqno]}
   \<and> accessed s (snd (plic_claim_irq cfg s)) = [PLIC_IOBASE cfg + 0x200004]
   \<and> accessed s (plic_close_irq cfg irqno s) \<in> {[], [PLIC_IOBASE cfg + 0x200004]}
   \<and> set (accessed s (plic_init cfg s))
       \<subseteq> (\<lambda>src. PLIC_IOBASE cfg + 4 * ucast src) ` {src. src < PLIC_SRCCNT}
         \<union> (\<lambda>src. PLIC_IOBASE cfg + 0x2000 + 4 * ucast (src div 32)) ` {src. src < PLIC_SRCCNT}"
proof -
  have internal:
    "accessed s (plic_set_source_priority cfg srcno level s) \<in> {[], [PLIC_IOBASE cfg + 4 * ucast srcno]}"
    "accessed s (snd (plic_source_pending cfg srcno s))
       \<in> {[], [PLIC_IOBASE cfg + 0x1000 + 4 * ucast (srcno div 32)]}"
    "accessed s (plic_enable_source_for_context cfg ctxno srcno s)
       \<in> {[], [PLIC_IOBASE cfg + 0x2000 + 4 * ucast (srcno div 32),
                PLIC_IOBASE cfg + 0x2000 + 4 * ucast (srcno div 32)]}"
    "accessed s (plic_disable_source_for_context cfg ctxno srcno s)
       \<in> {[], [PLIC_IOBASE cfg + 0x2000 + 4 * ucast (srcno div 32),
                PLIC_IOBASE cfg + 0x2000 + 4 * ucast (srcno div 32)]}"
    "accessed s (plic_set_context_threshold cfg ctxno level s) \<in> {[], [PLIC_IOBASE cfg + 0x200000]}"
    "accessed s (snd (plic_claim_context_interrupt cfg ctxno s)) \<in> {[], [PLIC_IOBASE cfg + 0x200004]}"
    "accessed s (plic_complete_context_interrupt cfg ctxno srcno s) \<in> {[], [PLIC_IOBASE cfg + 0x200004]}"
    by (simp_all add: accessed_def mmio_of_call)
  have facade:
    "accessed s (plic_enable_irq cfg irqno prio s) \<in> {[], [PLIC_IOBASE cfg + 4 * ucast irqno]}"
    "accessed s (plic_disable_irq cfg irqno s) \<in> {[], [PLIC_IOBASE cfg + 4 * ucast irqno]}"
    "accessed s (snd (plic_claim_irq cfg s)) = [PLIC_IOBASE cfg + 0x200004]"
    "accessed s (plic_close_irq cfg irqno s) \<in> {[], [PLIC_IOBASE cfg + 0x200004]}"
    by (simp_all add: accessed_def plic_enable_irq_def plic_disable_irq_def plic_claim_irq_def
          plic_close_irq_def mmio_of_call)
  obtain xs where "mmio (plic_init_loop cfg 0 s) = mmio s @ xs"
    and "set (map access_addr xs)
         \<subseteq> (\<lambda>src. PLIC_IOBASE cfg + 4 * ucast src) ` {src. src < PLIC_SRCCNT}
           \<union> (\<lambda>src. PLIC_IOBASE cfg + 0x2000 + 4 * ucast (src div 32)) ` {src. src < PLIC_SRCCNT}"
    using init_loop_accesses [of 0 cfg s] by auto
  then have init: "set (accessed s (plic_init cfg s))
       \<subseteq> (\<lambda>src. PLIC_IOBASE cfg + 4 * ucast src) ` {src. src < PLIC_SRCCNT}
         \<union> (\<lambda>src. PLIC_IOBASE cfg + 0x2000 + 4 * ucast (src div 32)) ` {src. src < PLIC_SRCCNT}"
    by (simp add: plic_init_def accessed_append)
  from globals_are_literal_sums [OF assms] internal facade init show ?thesis by blast
qed

lemma register_addresses_at_default_base:
  "accessed regs_zero (plic_set_source_priority cfg_min0 5 3 regs_zero) \<in> {[], [0x0C000014]}
   \<and> accessed regs_zero (snd (plic_source_pending cfg_min0 37 regs_zero)) \<in> {[], [0x0C001004]}
   \<and> accessed regs_zero (plic_enable_source_for_context cfg_min0 0 37 regs_zero)
       \<in> {[], [0x0C002004, 0x0C002004]}
   \<and> accessed regs_zero (plic_set_context_threshold cfg_min0 0 3 regs_zero) \<in> {[], [0x0C200000]}
   \<and> accessed regs_zero (snd (plic_claim_irq cfg_min0 regs_zero)) = [0x0C200004]"
proof -
  have fits: "iobase_fits cfg_min0"
    by (simp add: default_base_fits)
  show ?thesis
    using register_addresses_when_base_fits
            [OF fits, where s = regs_zero and srcno = 5 and level = 3 and ctxno = 0]
          register_addresses_when_base_fits
            [OF fits, where s = regs_zero and srcno = 37 and level = 3 and ctxno = 0]
    by (simp add: cfg_min0_def)
qed


end
